theory Spec2Isabelle
  imports Main
begin

section \<open>The streaming OSM-to-GeoJSON compiler of \<open>engines/osm.py\<close>\<close>

text \<open>
  \<open>OSMEngine.osm_to_geojson\<close> reads an OSM XML document as a stream of start and end
  events, keeps two registries (node coordinates, way coordinate sequences) and three
  scratch buffers (tags, refs, members), and appends GeoJSON features to a list that is
  written out once the stream is exhausted.

  What lies outside the repository enters the model as a parameter:
  \<^item> \<open>pyfloat\<close>, Python's \<open>float\<close> on a string (\<open>None\<close> where it raises ValueError);
    its result type \<open>'f\<close> stands for the floats on which Python's \<open>==\<close> is equality,
    that is, every float but NaN;
  \<^item> \<open>iterparse\<close>, the event stream that \<open>ET.iterparse\<close> yields for a file's content;
  \<^item> \<open>dump\<close>, the text that \<open>json.dump\<close> writes for a feature collection;
  \<^item> the two readings of \<open>time.time()\<close> and the formatting of the elapsed time.
\<close>

subsection \<open>Python values\<close>

text \<open>\<open>elem.get(k)\<close> is a string or \<open>None\<close>; such values are used as ids, keys and roles.\<close>

type_synonym pystr = "string option"

text \<open>
  A Python dict keeps its keys in insertion order, and assigning to a key that is
  already there keeps the key's place. The tag buffer and the property dicts are
  association lists updated in that way.
\<close>

type_synonym pydict = "(pystr \<times> pystr) list"

fun dict_set :: "'k \<Rightarrow> 'v \<Rightarrow> ('k \<times> 'v) list \<Rightarrow> ('k \<times> 'v) list" where
  "dict_set k v [] = [(k, v)]"
| "dict_set k v ((k', v') # d) =
     (if k' = k then (k', v) # d else (k', v') # dict_set k v d)"

text \<open>\<open>d.get(k)\<close>: the value stored under \<open>k\<close>, \<open>None\<close> when the key is absent.\<close>

definition dict_get :: "pydict \<Rightarrow> pystr \<Rightarrow> pystr" where
  "dict_get d k = (case map_of d k of None \<Rightarrow> None | Some v \<Rightarrow> v)"

datatype error = TypeError | ValueError | ParseError | FileNotFoundError

text \<open>\<open>float(elem.get(a))\<close>: TypeError on \<open>None\<close>, ValueError on an unparsable string.\<close>

definition to_float :: "(string \<Rightarrow> 'f option) \<Rightarrow> pystr \<Rightarrow> error + 'f" where
  "to_float pyfloat a =
     (case a of
        None \<Rightarrow> Inl TypeError
      | Some s \<Rightarrow> (case pyfloat s of None \<Rightarrow> Inl ValueError | Some x \<Rightarrow> Inr x))"

subsection \<open>The event stream\<close>

record element =
  tag :: string
  attrib :: "string \<rightharpoonup> string"

text \<open>
  The iteration over \<open>ET.iterparse\<close> yields \<open>("start", elem)\<close> and \<open>("end", elem)\<close>
  pairs, or raises ParseError at the point where the document is malformed.
\<close>

datatype xml_item = Start element | End element | Malformed

subsection \<open>Registries, scratch buffers and features\<close>

record member =
  mtype :: pystr
  mref :: pystr
  mrole :: pystr

record 'f way =
  coords :: "'f list list"
  tags :: pydict

text \<open>
  The \<open>coordinates\<close> of a geometry are a position, a list of positions, a list of rings
  or a list of polygons: the four nesting depths the code builds.
\<close>

datatype 'f jcoords =
    Position "'f list"
  | Line "'f list list"
  | Rings "'f list list list"
  | Polys "'f list list list list"

record 'f geometry =
  gtype :: string
  coordinates :: "'f jcoords"

record 'f feature =
  ftype :: string
  geometry :: "'f geometry"
  properties :: pydict

record 'f state =
  nodes :: "pystr \<rightharpoonup> 'f list"
  ways :: "pystr \<rightharpoonup> 'f way"
  features :: "'f feature list"
  current_tags :: pydict
  current_refs :: "pystr list"
  current_members :: "member list"

definition init :: "'f state" where
  "init = \<lparr>nodes = Map.empty, ways = Map.empty, features = [],
           current_tags = [], current_refs = [], current_members = []\<rparr>"

definition mk_feature :: "string \<Rightarrow> 'f jcoords \<Rightarrow> pydict \<Rightarrow> 'f feature" where
  "mk_feature t c p =
     \<lparr>ftype = ''Feature'', geometry = \<lparr>gtype = t, coordinates = c\<rparr>, properties = p\<rparr>"

subsection \<open>Finalization of a node, a way and a relation\<close>

text \<open>Lines 103--114: the end event of a \<open>node\<close>.\<close>

definition finalize_node ::
  "(string \<Rightarrow> 'f option) \<Rightarrow> element \<Rightarrow> 'f state \<Rightarrow> error + 'f state" where
  "finalize_node pyfloat e s =
     (let n_id = attrib e ''id'' in
      case to_float pyfloat (attrib e ''lon'') of
        Inl err \<Rightarrow> Inl err
      | Inr lon \<Rightarrow>
          (case to_float pyfloat (attrib e ''lat'') of
             Inl err \<Rightarrow> Inl err
           | Inr lat \<Rightarrow>
               Inr (s\<lparr>nodes := (nodes s)(n_id \<mapsto> [lon, lat]),
                      features :=
                        (if current_tags s \<noteq> []
                         then features s @
                              [mk_feature ''Point'' (Position [lon, lat])
                                 (dict_set (Some ''osm_id'') n_id (current_tags s))]
                         else features s)\<rparr>)))"

text \<open>Line 118: \<open>[nodes[r] for r in current_refs if r in nodes]\<close>.\<close>

fun resolve_refs :: "(pystr \<rightharpoonup> 'f list) \<Rightarrow> pystr list \<Rightarrow> 'f list list" where
  "resolve_refs ns [] = []"
| "resolve_refs ns (r # rs) =
     (case ns r of
        None \<Rightarrow> resolve_refs ns rs
      | Some c \<Rightarrow> c # resolve_refs ns rs)"

text \<open>
  Line 123: \<open>coords[0] == coords[-1] if len(coords) > 1 else False\<close>. The two ends are
  read only when there are at least two coordinates.
\<close>

definition is_polygon :: "'f list list \<Rightarrow> bool" where
  "is_polygon cs = (if length cs > 1 then hd cs = last cs else False)"

text \<open>Lines 116--132: the end event of a \<open>way\<close>.\<close>

definition finalize_way :: "element \<Rightarrow> 'f state \<Rightarrow> 'f state" where
  "finalize_way e s =
     (let w_id = attrib e ''id'';
          cs = resolve_refs (nodes s) (current_refs s)
      in s\<lparr>ways := (ways s)(w_id \<mapsto> \<lparr>coords = cs, tags = current_tags s\<rparr>),
            features :=
              (if current_tags s \<noteq> []
               then features s @
                    [mk_feature (if is_polygon cs then ''Polygon'' else ''LineString'')
                       (if is_polygon cs then Rings [cs] else Line cs)
                       (dict_set (Some ''osm_id'') w_id (current_tags s))]
               else features s)\<rparr>)"

text \<open>
  Lines 139--140: the rings of the members with a given role whose ref is a key of the
  way registry, in member order.
\<close>

fun rings_of :: "(pystr \<rightharpoonup> 'f way) \<Rightarrow> string \<Rightarrow> member list \<Rightarrow> 'f list list list" where
  "rings_of ws role [] = []"
| "rings_of ws role (m # ms) =
     (if mrole m = Some role then
        (case ws (mref m) of
           None \<Rightarrow> rings_of ws role ms
         | Some w \<Rightarrow> coords w # rings_of ws role ms)
      else rings_of ws role ms)"

text \<open>
  Lines 150--162: the body of the loop over the members of a route or restriction, as
  the list of features it appends (none or one).
\<close>

definition member_feature ::
  "(pystr \<rightharpoonup> 'f list) \<Rightarrow> (pystr \<rightharpoonup> 'f way) \<Rightarrow> pydict \<Rightarrow> pystr \<Rightarrow> member \<Rightarrow> 'f feature list" where
  "member_feature ns ws tgs r_id m =
     (let props = dict_set (Some ''osm_id'') r_id (dict_set (Some ''rel_role'') (mrole m) tgs)
      in if mtype m = Some ''node'' \<and> ns (mref m) \<noteq> None then
           [mk_feature ''Point'' (Position (the (ns (mref m)))) props]
         else if mtype m = Some ''way'' \<and> ws (mref m) \<noteq> None then
           [mk_feature ''LineString'' (Line (coords (the (ws (mref m))))) props]
         else [])"

text \<open>Lines 149--162: the loop, appending to the feature list member after member.\<close>

fun member_loop ::
  "(pystr \<rightharpoonup> 'f list) \<Rightarrow> (pystr \<rightharpoonup> 'f way) \<Rightarrow> pydict \<Rightarrow> pystr \<Rightarrow>
   member list \<Rightarrow> 'f feature list \<Rightarrow> 'f feature list" where
  "member_loop ns ws tgs r_id [] fs = fs"
| "member_loop ns ws tgs r_id (m # ms) fs =
     member_loop ns ws tgs r_id ms (fs @ member_feature ns ws tgs r_id m)"

text \<open>Lines 134--163: the end event of a \<open>relation\<close>.\<close>

definition finalize_relation :: "element \<Rightarrow> 'f state \<Rightarrow> 'f state" where
  "finalize_relation e s =
     (let r_id = attrib e ''id'';
          rel_type = dict_get (current_tags s) (Some ''type'')
      in if rel_type \<in> set [Some ''multipolygon'', Some ''boundary''] then
           (let outer = rings_of (ways s) ''outer'' (current_members s);
                inner = rings_of (ways s) ''inner'' (current_members s)
            in if outer \<noteq> [] then
                 s\<lparr>features := features s @
                      [mk_feature ''MultiPolygon'' (Polys [outer @ inner])
                         (dict_set (Some ''osm_id'') r_id (current_tags s))]\<rparr>
               else s)
         else if rel_type \<in> set [Some ''route'', Some ''restriction''] then
           s\<lparr>features :=
               member_loop (nodes s) (ways s) (current_tags s) r_id
                 (current_members s) (features s)\<rparr>
         else s)"

subsection \<open>One event, the whole stream, the whole call\<close>

text \<open>Lines 80--163: the body of the loop, for one item of the stream.\<close>

fun step :: "(string \<Rightarrow> 'f option) \<Rightarrow> 'f state \<Rightarrow> xml_item \<Rightarrow> error + 'f state" where
  "step pyfloat s Malformed = Inl ParseError"
| "step pyfloat s (Start e) =
     (if tag e \<in> set [''node'', ''way'', ''relation'']
      then Inr (s\<lparr>current_tags := [], current_refs := [], current_members := []\<rparr>)
      else Inr s)"
| "step pyfloat s (End e) =
     (if tag e = ''tag'' then
        Inr (s\<lparr>current_tags := dict_set (attrib e ''k'') (attrib e ''v'') (current_tags s)\<rparr>)
      else if tag e = ''nd'' then
        Inr (s\<lparr>current_refs := current_refs s @ [attrib e ''ref'']\<rparr>)
      else if tag e = ''member'' then
        Inr (s\<lparr>current_members := current_members s @
               [\<lparr>mtype = attrib e ''type'', mref = attrib e ''ref'',
                 mrole = attrib e ''role''\<rparr>]\<rparr>)
      else if tag e = ''node'' then finalize_node pyfloat e s
      else if tag e = ''way'' then Inr (finalize_way e s)
      else if tag e = ''relation'' then Inr (finalize_relation e s)
      else Inr s)"

text \<open>The loop stops at the first exception.\<close>

fun run :: "(string \<Rightarrow> 'f option) \<Rightarrow> 'f state \<Rightarrow> xml_item list \<Rightarrow> error + 'f state" where
  "run pyfloat s [] = Inr s"
| "run pyfloat s (x # xs) =
     (case step pyfloat s x of
        Inl err \<Rightarrow> Inl err
      | Inr s' \<Rightarrow> run pyfloat s' xs)"

text \<open>
  Lines 71--163: the pass over the whole stream from the empty registries, and the
  feature list it hands to the writer.
\<close>

definition compile :: "(string \<Rightarrow> 'f option) \<Rightarrow> xml_item list \<Rightarrow> error + 'f feature list" where
  "compile pyfloat items =
     (case run pyfloat init items of
        Inl err \<Rightarrow> Inl err
      | Inr s \<Rightarrow> Inr (features s))"

text \<open>
  Lines 66--169. The file system is a map from paths to contents; the call returns the
  file system it leaves, what it printed, and the exception it raised, if any. The
  output file is opened only after the loop has ended.
\<close>

record 'f collection =
  ctype :: string
  cfeatures :: "'f feature list"

record outcome =
  files :: "string \<rightharpoonup> string"
  printed :: "string list"
  raised :: "error option"

definition osm_to_geojson ::
  "(string \<Rightarrow> xml_item list) \<Rightarrow> (string \<Rightarrow> 'f option) \<Rightarrow> ('f collection \<Rightarrow> string) \<Rightarrow>
   ('t \<Rightarrow> 't \<Rightarrow> string) \<Rightarrow> 't \<Rightarrow> 't \<Rightarrow> (string \<rightharpoonup> string) \<Rightarrow> string \<Rightarrow> string \<Rightarrow> outcome" where
  "osm_to_geojson iterparse pyfloat dump elapsed start_time end_time fs output_path input_path =
     (case fs input_path of
        None \<Rightarrow> \<lparr>files = fs, printed = [], raised = Some FileNotFoundError\<rparr>
      | Some doc \<Rightarrow>
          (case compile pyfloat (iterparse doc) of
             Inl err \<Rightarrow> \<lparr>files = fs, printed = [], raised = Some err\<rparr>
           | Inr fts \<Rightarrow>
               \<lparr>files = fs(output_path \<mapsto>
                   dump \<lparr>ctype = ''FeatureCollection'', cfeatures = fts\<rparr>),
                printed = [elapsed start_time end_time],
                raised = None\<rparr>))"

subsection \<open>The document of \<open>test_osm_to_geojson\<close>\<close>

text \<open>
  The coordinate literals of the test document have the form \<open>[-]digits.digits\<close> with
  at most seven decimals. \<open>decimal7\<close> reads such a literal as its value in units of
  \<open>10\<^sup>-\<^sup>7\<close>; it serves as a concrete \<open>pyfloat\<close> wherever a property is evaluated.
\<close>

definition digit_val :: "char \<Rightarrow> nat option" where
  "digit_val c =
     (let n = (of_char c :: nat)
      in if 48 \<le> n \<and> n \<le> 57 then Some (n - 48) else None)"

fun digits_val :: "string \<Rightarrow> nat \<Rightarrow> nat option" where
  "digits_val [] acc = Some acc"
| "digits_val (c # cs) acc =
     (case digit_val c of
        None \<Rightarrow> None
      | Some d \<Rightarrow> digits_val cs (10 * acc + d))"

definition unsigned_decimal7 :: "string \<Rightarrow> int option" where
  "unsigned_decimal7 s =
     (let ip = takeWhile (\<lambda>c. c \<noteq> CHR ''.'') s;
          fp = drop 1 (dropWhile (\<lambda>c. c \<noteq> CHR ''.'') s)
      in if ip = [] \<or> fp = [] \<or> length fp > 7 then None
         else (case digits_val (ip @ fp) 0 of
                 None \<Rightarrow> None
               | Some m \<Rightarrow> Some (int (m * 10 ^ (7 - length fp)))))"

fun decimal7 :: "string \<Rightarrow> int option" where
  "decimal7 [] = None"
| "decimal7 (c # cs) =
     (if c = CHR ''-'' then map_option uminus (unsigned_decimal7 cs)
      else unsigned_decimal7 (c # cs))"

definition el :: "string \<Rightarrow> (string \<times> string) list \<Rightarrow> element" where
  "el t kvs = \<lparr>tag = t, attrib = map_of kvs\<rparr>"

text \<open>An element without children: its start event, then its end event.\<close>

definition leaf :: "string \<Rightarrow> (string \<times> string) list \<Rightarrow> xml_item list" where
  "leaf t kvs = [Start (el t kvs), End (el t kvs)]"

definition inside :: "string \<Rightarrow> (string \<times> string) list \<Rightarrow> xml_item list \<Rightarrow> xml_item list" where
  "inside t kvs children = Start (el t kvs) # children @ [End (el t kvs)]"

definition fixture_nodes :: "xml_item list" where
  "fixture_nodes =
     inside ''node'' [(''id'', ''1''), (''lat'', ''32.8715''), (''lon'', ''-117.2110''),
                      (''version'', ''1''), (''timestamp'', ''2025-01-01T00:00:00Z'')]
       (leaf ''tag'' [(''k'', ''name''), (''v'', ''UTC Transit Center'')])
     @ leaf ''node'' [(''id'', ''2''), (''lat'', ''32.8720''), (''lon'', ''-117.2120''), (''version'', ''1'')]
     @ leaf ''node'' [(''id'', ''3''), (''lat'', ''32.8730''), (''lon'', ''-117.2120''), (''version'', ''1'')]
     @ leaf ''node'' [(''id'', ''4''), (''lat'', ''32.8730''), (''lon'', ''-117.2110''), (''version'', ''1'')]
     @ leaf ''node'' [(''id'', ''5''), (''lat'', ''32.8725''), (''lon'', ''-117.2115''), (''version'', ''1'')]"

definition fixture_ways :: "xml_item list" where
  "fixture_ways =
     inside ''way'' [(''id'', ''10''), (''version'', ''1'')]
       (leaf ''nd'' [(''ref'', ''2'')] @ leaf ''nd'' [(''ref'', ''3'')]
        @ leaf ''tag'' [(''k'', ''highway''), (''v'', ''primary'')]
        @ leaf ''tag'' [(''k'', ''name''), (''v'', ''Genesee Ave'')])
     @ inside ''way'' [(''id'', ''11''), (''version'', ''1'')]
       (leaf ''nd'' [(''ref'', ''1'')] @ leaf ''nd'' [(''ref'', ''2'')]
        @ leaf ''nd'' [(''ref'', ''3'')] @ leaf ''nd'' [(''ref'', ''4'')]
        @ leaf ''nd'' [(''ref'', ''1'')]
        @ leaf ''tag'' [(''k'', ''building''), (''v'', ''retail'')])
     @ inside ''way'' [(''id'', ''12''), (''version'', ''1'')]
       (leaf ''nd'' [(''ref'', ''5'')] @ leaf ''nd'' [(''ref'', ''2'')]
        @ leaf ''nd'' [(''ref'', ''3'')] @ leaf ''nd'' [(''ref'', ''5'')])"

definition fixture_relations :: "xml_item list" where
  "fixture_relations =
     inside ''relation'' [(''id'', ''100''), (''version'', ''1'')]
       (leaf ''member'' [(''type'', ''way''), (''ref'', ''11''), (''role'', ''outer'')]
        @ leaf ''member'' [(''type'', ''way''), (''ref'', ''12''), (''role'', ''inner'')]
        @ leaf ''tag'' [(''k'', ''type''), (''v'', ''multipolygon'')]
        @ leaf ''tag'' [(''k'', ''amenity''), (''v'', ''marketplace'')])
     @ inside ''relation'' [(''id'', ''200''), (''version'', ''1'')]
       (leaf ''member'' [(''type'', ''way''), (''ref'', ''11''), (''role'', ''outer'')]
        @ leaf ''tag'' [(''k'', ''type''), (''v'', ''boundary'')]
        @ leaf ''tag'' [(''k'', ''boundary''), (''v'', ''parking'')]
        @ leaf ''tag'' [(''k'', ''name''), (''v'', ''UTC Parking South'')])
     @ inside ''relation'' [(''id'', ''300''), (''version'', ''1'')]
       (leaf ''member'' [(''type'', ''way''), (''ref'', ''10''), (''role'', ''track'')]
        @ leaf ''member'' [(''type'', ''node''), (''ref'', ''1''), (''role'', ''stop'')]
        @ leaf ''tag'' [(''k'', ''type''), (''v'', ''route'')]
        @ leaf ''tag'' [(''k'', ''route''), (''v'', ''bus'')]
        @ leaf ''tag'' [(''k'', ''ref''), (''v'', ''201'')])
     @ inside ''relation'' [(''id'', ''400''), (''version'', ''1'')]
       (leaf ''member'' [(''type'', ''way''), (''ref'', ''10''), (''role'', ''from'')]
        @ leaf ''member'' [(''type'', ''node''), (''ref'', ''5''), (''role'', ''via'')]
        @ leaf ''tag'' [(''k'', ''type''), (''v'', ''restriction'')]
        @ leaf ''tag'' [(''k'', ''restriction''), (''v'', ''no_left_turn'')])"

definition fixture :: "xml_item list" where
  "fixture =
     inside ''osm'' [(''version'', ''0.6''), (''generator'', ''Overpass API 0.7.62.8 e802775f'')]
       (leaf ''note'' []
        @ leaf ''meta'' [(''osm_base'', ''2025-12-21T23:30:31Z'')]
        @ leaf ''bounds'' [(''minlat'', ''32.8680000''), (''minlon'', ''-117.2150000''),
                           (''maxlat'', ''32.8750000''), (''maxlon'', ''-117.2080000'')]
        @ fixture_nodes @ fixture_ways @ fixture_relations)"

subsection \<open>Vocabulary of the properties\<close>

text \<open>
  An item of the stream is harmless when it is not the point where the document is
  malformed and, if it ends a \<open>node\<close>, both coordinate attributes are parsed by
  \<open>float\<close>.
\<close>

definition parses :: "(string \<Rightarrow> 'f option) \<Rightarrow> pystr \<Rightarrow> bool" where
  "parses pyfloat a = (case to_float pyfloat a of Inl _ \<Rightarrow> False | Inr _ \<Rightarrow> True)"

fun item_ok :: "(string \<Rightarrow> 'f option) \<Rightarrow> xml_item \<Rightarrow> bool" where
  "item_ok pyfloat Malformed = False"
| "item_ok pyfloat (Start e) = True"
| "item_ok pyfloat (End e) =
     (if tag e = ''node''
      then parses pyfloat (attrib e ''lon'') \<and> parses pyfloat (attrib e ''lat'')
      else True)"

text \<open>A member of a route or restriction for which the loop body appends a feature.\<close>

definition resolves :: "'f state \<Rightarrow> member \<Rightarrow> bool" where
  "resolves s m =
     ((mtype m = Some ''node'' \<and> nodes s (mref m) \<noteq> None) \<or>
      (mtype m = Some ''way'' \<and> ways s (mref m) \<noteq> None))"

text \<open>The two kinds of relation that emit features, by the \<open>type\<close> tag.\<close>

definition is_area :: "'f state \<Rightarrow> bool" where
  "is_area s =
     (dict_get (current_tags s) (Some ''type'') = Some ''multipolygon'' \<or>
      dict_get (current_tags s) (Some ''type'') = Some ''boundary'')"

definition is_ordered :: "'f state \<Rightarrow> bool" where
  "is_ordered s =
     (dict_get (current_tags s) (Some ''type'') = Some ''route'' \<or>
      dict_get (current_tags s) (Some ''type'') = Some ''restriction'')"

text \<open>
  The feature list that the test document compiles to, given the floats \<open>a\<close>, \<open>b\<close>,
  \<open>c\<close> of the longitudes \<open>-117.2110\<close>, \<open>-117.2120\<close>, \<open>-117.2115\<close> and \<open>p\<close>, \<open>q\<close>,
  \<open>r\<close>, \<open>t\<close> of the latitudes \<open>32.8715\<close>, \<open>32.8720\<close>, \<open>32.8730\<close>, \<open>32.8725\<close>.
\<close>

definition fixture_expected :: "'f \<Rightarrow> 'f \<Rightarrow> 'f \<Rightarrow> 'f \<Rightarrow> 'f \<Rightarrow> 'f \<Rightarrow> 'f \<Rightarrow> 'f feature list" where
  "fixture_expected a b c p q r t =
     (let n1 = [a, p]; n2 = [b, q]; n3 = [b, r]; n4 = [a, r]; n5 = [c, t];
          way10 = [n2, n3]; way11 = [n1, n2, n3, n4, n1]; way12 = [n5, n2, n3, n5];
          route = [(Some ''type'', Some ''route''), (Some ''route'', Some ''bus''),
                   (Some ''ref'', Some ''201'')];
          restriction = [(Some ''type'', Some ''restriction''),
                         (Some ''restriction'', Some ''no_left_turn'')]
      in [mk_feature ''Point'' (Position n1)
            [(Some ''name'', Some ''UTC Transit Center''), (Some ''osm_id'', Some ''1'')],
          mk_feature ''LineString'' (Line way10)
            [(Some ''highway'', Some ''primary''), (Some ''name'', Some ''Genesee Ave''),
             (Some ''osm_id'', Some ''10'')],
          mk_feature ''Polygon'' (Rings [way11])
            [(Some ''building'', Some ''retail''), (Some ''osm_id'', Some ''11'')],
          mk_feature ''MultiPolygon'' (Polys [[way11, way12]])
            [(Some ''type'', Some ''multipolygon''), (Some ''amenity'', Some ''marketplace''),
             (Some ''osm_id'', Some ''100'')],
          mk_feature ''MultiPolygon'' (Polys [[way11]])
            [(Some ''type'', Some ''boundary''), (Some ''boundary'', Some ''parking''),
             (Some ''name'', Some ''UTC Parking South''), (Some ''osm_id'', Some ''200'')],
          mk_feature ''LineString'' (Line way10)
            (route @ [(Some ''rel_role'', Some ''track''), (Some ''osm_id'', Some ''300'')]),
          mk_feature ''Point'' (Position n1)
            (route @ [(Some ''rel_role'', Some ''stop''), (Some ''osm_id'', Some ''300'')]),
          mk_feature ''LineString'' (Line way10)
            (restriction @ [(Some ''rel_role'', Some ''from''), (Some ''osm_id'', Some ''400'')]),
          mk_feature ''Point'' (Position n5)
            (restriction @ [(Some ''rel_role'', Some ''via''), (Some ''osm_id'', Some ''400'')])])"

subsection \<open>Sample inputs\<close>

text \<open>
  A state in the middle of a pass: three nodes and two ways are registered (way 10
  open, way 11 closed), the tag buffer already holds the keys \<open>osm_id\<close> and
  \<open>rel_role\<close>, the ref buffer names a closed ring with one unknown node (9), and the
  member buffer holds members that resolve and members that do not.
\<close>

definition sample_members :: "member list" where
  "sample_members =
     [\<lparr>mtype = Some ''way'', mref = Some ''11'', mrole = Some ''outer''\<rparr>,
      \<lparr>mtype = Some ''way'', mref = Some ''99'', mrole = Some ''outer''\<rparr>,
      \<lparr>mtype = Some ''way'', mref = Some ''10'', mrole = Some ''inner''\<rparr>,
      \<lparr>mtype = Some ''node'', mref = Some ''1'', mrole = Some ''stop''\<rparr>,
      \<lparr>mtype = Some ''node'', mref = Some ''42'', mrole = Some ''stop''\<rparr>]"

definition sample_state :: "int state" where
  "sample_state =
     \<lparr>nodes = [Some ''1'' \<mapsto> [0, 0], Some ''2'' \<mapsto> [0, 1], Some ''3'' \<mapsto> [1, 1]],
      ways = [Some ''10'' \<mapsto> \<lparr>coords = [[0, 0], [0, 1]], tags = []\<rparr>,
              Some ''11'' \<mapsto> \<lparr>coords = [[0, 0], [0, 1], [1, 1], [0, 0]], tags = []\<rparr>],
      features = [],
      current_tags = [(Some ''osm_id'', Some ''from a tag''), (Some ''type'', Some ''route''),
                      (Some ''rel_role'', Some ''from a tag'')],
      current_refs = [Some ''1'', Some ''9'', Some ''2'', Some ''3'', Some ''1''],
      current_members = sample_members\<rparr>"

definition sample_area_state :: "int state" where
  "sample_area_state =
     sample_state\<lparr>current_tags := [(Some ''type'', Some ''multipolygon'')]\<rparr>"

text \<open>A document whose way and relation refer to primitives that are not there.\<close>

definition sample_gaps :: "xml_item list" where
  "sample_gaps =
     inside ''osm'' [(''version'', ''0.6'')]
       (leaf ''node'' [(''id'', ''1''), (''lat'', ''32.8715''), (''lon'', ''-117.2110'')]
        @ inside ''way'' [(''id'', ''10'')]
            (leaf ''nd'' [(''ref'', ''1'')] @ leaf ''nd'' [(''ref'', ''99'')]
             @ leaf ''tag'' [(''k'', ''highway''), (''v'', ''primary'')])
        @ inside ''relation'' [(''id'', ''300'')]
            (leaf ''member'' [(''type'', ''way''), (''ref'', ''77''), (''role'', ''track'')]
             @ leaf ''tag'' [(''k'', ''type''), (''v'', ''route'')]))"

text \<open>A document whose only node has a latitude that \<open>float\<close> rejects.\<close>

definition sample_corrupt :: "xml_item list" where
  "sample_corrupt =
     leaf ''node'' [(''id'', ''1''), (''lat'', ''north''), (''lon'', ''-117.2110'')]"

section \<open>Properties\<close>

subsection \<open>Auxiliary facts\<close>

lemma map_of_dict_set: "map_of (dict_set k v d) = (map_of d)(k \<mapsto> v)"
  by (induction d) (auto simp: fun_eq_iff)

lemma resolve_refs_filter:
  "map Some (resolve_refs ns rs) = filter (\<lambda>x. x \<noteq> None) (map ns rs)"
  by (induction rs) (auto split: option.splits)

lemma rings_of_filter:
  "rings_of ws role ms =
     map (\<lambda>m. coords (the (ws (mref m))))
       (filter (\<lambda>m. mrole m = Some role \<and> ws (mref m) \<noteq> None) ms)"
  by (induction ms) (auto split: option.splits)

lemma member_loop_concat:
  "member_loop ns ws tgs r_id ms fs = fs @ concat (map (member_feature ns ws tgs r_id) ms)"
  by (induction ms arbitrary: fs) auto

lemma step_end_ok:
  "item_ok pyfloat (End e) \<Longrightarrow> \<exists>s'. step pyfloat s (End e) = Inr s'"
  by (auto simp: finalize_node_def parses_def Let_def split: sum.splits if_splits)

lemma step_ok:
  assumes "item_ok pyfloat x"
  shows "\<exists>s'. step pyfloat s x = Inr s'"
proof (cases x)
  case (Start e)
  then show ?thesis by simp
next
  case (End e)
  with assms show ?thesis using step_end_ok [of pyfloat e s] by blast
next
  case Malformed
  with assms show ?thesis by simp
qed

lemma step_fails: "\<not> item_ok pyfloat x \<Longrightarrow> \<exists>err. step pyfloat s x = Inl err"
  by (cases x) (auto simp: finalize_node_def parses_def Let_def split: sum.splits if_splits)

lemma run_ok: "list_all (item_ok pyfloat) items \<Longrightarrow> \<exists>s'. run pyfloat s items = Inr s'"
proof (induction items arbitrary: s)
  case Nil
  then show ?case by simp
next
  case (Cons x xs)
  then obtain s1 where "step pyfloat s x = Inr s1"
    using step_ok [of pyfloat x s] by auto
  with Cons show ?case by simp
qed

lemma run_fails:
  "\<not> list_all (item_ok pyfloat) items \<Longrightarrow> \<exists>err. run pyfloat s items = Inl err"
proof (induction items arbitrary: s)
  case Nil
  then show ?case by simp
next
  case (Cons x xs)
  show ?case
  proof (cases "step pyfloat s x")
    case (Inl err)
    then show ?thesis by simp
  next
    case (Inr s1)
    then have "item_ok pyfloat x"
      using step_fails [of pyfloat x s] by auto
    with Cons.prems have "\<not> list_all (item_ok pyfloat) xs" by simp
    with Cons.IH [of s1] Inr show ?thesis by simp
  qed
qed


lemma step_end_node:
  "tag e = ''node'' \<Longrightarrow> step pyfloat s (End e) = finalize_node pyfloat e s"
  by simp

lemma step_end_way:
  "tag e = ''way'' \<Longrightarrow> step pyfloat s (End e) = Inr (finalize_way e s)"
  by simp

lemma step_end_relation:
  "tag e = ''relation'' \<Longrightarrow> step pyfloat s (End e) = Inr (finalize_relation e s)"
  by simp

lemmas sample_eval = el_def leaf_def inside_def init_def sample_state_def
  sample_area_state_def sample_members_def finalize_node_def finalize_way_def
  finalize_relation_def member_feature_def mk_feature_def is_polygon_def dict_get_def
  to_float_def parses_def resolves_def unsigned_decimal7_def digit_val_def Let_def

subsection \<open>Nodes\<close>

text \<open>
  C4. When a node is finalized and both coordinates parse, the pair (longitude,
  latitude) is stored in the node registry under the node's id. If the tag buffer is
  empty, the feature list is unchanged; if it is not, exactly one feature is appended:
  a Point at that pair whose properties are the tag map with \<open>osm_id\<close> set to the
  node's id.
\<close>

theorem node_point_feature:
  assumes "tag e = ''node''"
    and "to_float pyfloat (attrib e ''lon'') = Inr lon"
    and "to_float pyfloat (attrib e ''lat'') = Inr lat"
  shows "\<exists>s'. step pyfloat s (End e) = Inr s' \<and>
           nodes s' (attrib e ''id'') = Some [lon, lat] \<and>
           (current_tags s = [] \<longrightarrow> features s' = features s) \<and>
           (current_tags s \<noteq> [] \<longrightarrow>
              (\<exists>f. features s' = features s @ [f] \<and>
                   ftype f = ''Feature'' \<and>
                   gtype (geometry f) = ''Point'' \<and>
                   coordinates (geometry f) = Position [lon, lat] \<and>
                   map_of (properties f) =
                     (map_of (current_tags s))(Some ''osm_id'' \<mapsto> attrib e ''id'')))"
  using assms
  by (simp add: step_end_node finalize_node_def mk_feature_def map_of_dict_set Let_def
        del: step.simps)

theorem node_point_feature_witness:
  "tag (el ''node'' [(''id'', ''7''), (''lat'', ''32.8715''), (''lon'', ''-117.2110'')]) = ''node'' \<and>
   current_tags sample_state \<noteq> [] \<and>
   (\<exists>s'. step decimal7 sample_state
            (End (el ''node'' [(''id'', ''7''), (''lat'', ''32.8715''), (''lon'', ''-117.2110'')])) =
          Inr s' \<and>
        nodes s' (Some ''7'') = Some [- 1172110000, 328715000] \<and>
        (\<exists>f. features s' = [f] \<and>
             gtype (geometry f) = ''Point'' \<and>
             coordinates (geometry f) = Position [- 1172110000, 328715000] \<and>
             map_of (properties f) (Some ''osm_id'') = Some (Some ''7'')))"
  using node_point_feature
    [of "el ''node'' [(''id'', ''7''), (''lat'', ''32.8715''), (''lon'', ''-117.2110'')]"
        decimal7 "- 1172110000" "328715000" sample_state]
  by (simp add: sample_eval)

subsection \<open>Ways\<close>

text \<open>
  C1. When a way is finalized with a non-empty tag buffer, exactly one feature is
  appended. Its geometry type is Polygon if and only if the resolved coordinate list
  has more than one element and its first element equals its last; otherwise the type
  is LineString and the coordinates are the list itself. A Polygon carries the list
  wrapped as a single ring. The properties are the tag map with \<open>osm_id\<close> set to the
  way's id.
\<close>

theorem tagged_way_geometry:
  assumes "tag e = ''way''"
    and "current_tags s \<noteq> []"
    and "cs = resolve_refs (nodes s) (current_refs s)"
  shows "\<exists>s' f. step pyfloat s (End e) = Inr s' \<and>
           features s' = features s @ [f] \<and>
           ftype f = ''Feature'' \<and>
           (gtype (geometry f) = ''Polygon'' \<longleftrightarrow> length cs > 1 \<and> hd cs = last cs) \<and>
           (gtype (geometry f) = ''Polygon'' \<longrightarrow> coordinates (geometry f) = Rings [cs]) \<and>
           (gtype (geometry f) \<noteq> ''Polygon'' \<longrightarrow>
              gtype (geometry f) = ''LineString'' \<and> coordinates (geometry f) = Line cs) \<and>
           map_of (properties f) =
             (map_of (current_tags s))(Some ''osm_id'' \<mapsto> attrib e ''id'')"
  using assms
  by (simp add: step_end_way finalize_way_def mk_feature_def is_polygon_def
        map_of_dict_set Let_def del: step.simps)

theorem tagged_way_geometry_witness:
  "tag (el ''way'' [(''id'', ''12'')]) = ''way'' \<and>
   current_tags sample_state \<noteq> [] \<and>
   resolve_refs (nodes sample_state) (current_refs sample_state) =
     [[0, 0], [0, 1], [1, 1], [0, 0]] \<and>
   (\<exists>s' f. step decimal7 sample_state (End (el ''way'' [(''id'', ''12'')])) = Inr s' \<and>
        features s' = [f] \<and>
        gtype (geometry f) = ''Polygon'' \<and>
        coordinates (geometry f) = Rings [[[0, 0], [0, 1], [1, 1], [0, 0]]] \<and>
        map_of (properties f) (Some ''osm_id'') = Some (Some ''12''))"
proof -
  let ?e = "el ''way'' [(''id'', ''12'')]"
  let ?ring = "[[0, 0], [0, 1], [1, 1], [0, 0 :: int]]"
  have t: "tag ?e = ''way''"
    by (simp add: el_def)
  have c: "current_tags sample_state \<noteq> []"
    by (simp add: sample_state_def)
  have r: "resolve_refs (nodes sample_state) (current_refs sample_state) = ?ring"
    by (simp add: sample_state_def)
  have i: "attrib ?e ''id'' = Some ''12''"
    by (simp add: el_def)
  have fs: "features sample_state = []"
    by (simp add: sample_state_def)
  from tagged_way_geometry [OF t c r [symmetric], of decimal7] obtain s' f where
    st: "step decimal7 sample_state (End ?e) = Inr s'" and
    ft: "features s' = features sample_state @ [f]" and
    poly: "gtype (geometry f) = ''Polygon'' \<longleftrightarrow> length ?ring > 1 \<and> hd ?ring = last ?ring" and
    co: "gtype (geometry f) = ''Polygon'' \<longrightarrow> coordinates (geometry f) = Rings [?ring]" and
    pr: "map_of (properties f) =
           (map_of (current_tags sample_state))(Some ''osm_id'' \<mapsto> attrib ?e ''id'')"
    by blast
  from poly have g: "gtype (geometry f) = ''Polygon''"
    by simp
  with co have k: "coordinates (geometry f) = Rings [?ring]"
    by simp
  from pr i have p: "map_of (properties f) (Some ''osm_id'') = Some (Some ''12'')"
    by simp
  from ft fs have l: "features s' = [f]"
    by simp
  from t c r st g k p l show ?thesis
    by blast
qed

text \<open>
  C10. A way whose resolved coordinate list has at most one element is finalized
  without an error: the way is stored in the way registry with that list, and if the
  tag buffer is non-empty the feature appended is a LineString over that list.
\<close>

theorem short_way_is_linestring:
  assumes "tag e = ''way''"
    and "cs = resolve_refs (nodes s) (current_refs s)"
    and "length cs \<le> 1"
  shows "\<exists>s'. step pyfloat s (End e) = Inr s' \<and>
           ways s' (attrib e ''id'') = Some \<lparr>coords = cs, tags = current_tags s\<rparr> \<and>
           (current_tags s = [] \<longrightarrow> features s' = features s) \<and>
           (current_tags s \<noteq> [] \<longrightarrow>
              features s' = features s @
                [mk_feature ''LineString'' (Line cs)
                   (dict_set (Some ''osm_id'') (attrib e ''id'') (current_tags s))])"
  using assms
  by (simp add: step_end_way finalize_way_def is_polygon_def Let_def del: step.simps)

theorem short_way_is_linestring_witness:
  "resolve_refs (nodes sample_state) [Some ''8'', Some ''9''] = [] \<and>
   (\<exists>s'. step decimal7 (sample_state\<lparr>current_refs := [Some ''8'', Some ''9'']\<rparr>)
            (End (el ''way'' [(''id'', ''12'')])) = Inr s' \<and>
        ways s' (Some ''12'') = Some \<lparr>coords = [], tags = current_tags sample_state\<rparr> \<and>
        map (\<lambda>f. (gtype (geometry f), coordinates (geometry f))) (features s') =
          [(''LineString'', Line [])])"
  using short_way_is_linestring
    [of "el ''way'' [(''id'', ''12'')]" "[]"
        "sample_state\<lparr>current_refs := [Some ''8'', Some ''9'']\<rparr>" decimal7]
  by (simp add: sample_eval)

subsection \<open>Relations\<close>

text \<open>
  C2. When a relation whose \<open>type\<close> tag is \<open>multipolygon\<close> or \<open>boundary\<close> is
  finalized: if no member with role \<open>outer\<close> has its ref in the way registry, the
  feature list is unchanged; otherwise exactly one feature is appended, a MultiPolygon
  whose coordinates hold a single ring set, namely the stored rings of the resolved
  outer members followed by those of the resolved inner members, so that its length is
  the number of resolved outer members plus the number of resolved inner members. The
  properties are the tag map with \<open>osm_id\<close> set to the relation's id.
\<close>

theorem multipolygon_relation:
  assumes "tag e = ''relation''"
    and "dict_get (current_tags s) (Some ''type'') = Some ''multipolygon'' \<or>
         dict_get (current_tags s) (Some ''type'') = Some ''boundary''"
    and "outer_ms = filter (\<lambda>m. mrole m = Some ''outer'' \<and> ways s (mref m) \<noteq> None)
                      (current_members s)"
    and "inner_ms = filter (\<lambda>m. mrole m = Some ''inner'' \<and> ways s (mref m) \<noteq> None)
                      (current_members s)"
  shows "\<exists>s'. step pyfloat s (End e) = Inr s' \<and>
           (outer_ms = [] \<longrightarrow> features s' = features s) \<and>
           (outer_ms \<noteq> [] \<longrightarrow>
              (\<exists>f rings. features s' = features s @ [f] \<and>
                   ftype f = ''Feature'' \<and>
                   gtype (geometry f) = ''MultiPolygon'' \<and>
                   coordinates (geometry f) = Polys [rings] \<and>
                   rings = map (\<lambda>m. coords (the (ways s (mref m)))) (outer_ms @ inner_ms) \<and>
                   length rings = length outer_ms + length inner_ms \<and>
                   map_of (properties f) =
                     (map_of (current_tags s))(Some ''osm_id'' \<mapsto> attrib e ''id'')))"
  using assms
  by (auto simp add: step_end_relation finalize_relation_def rings_of_filter mk_feature_def
        map_of_dict_set Let_def simp del: step.simps)

theorem multipolygon_relation_witness:
  "dict_get (current_tags sample_area_state) (Some ''type'') = Some ''multipolygon'' \<and>
   (\<exists>s' f. step decimal7 sample_area_state (End (el ''relation'' [(''id'', ''100'')])) = Inr s' \<and>
        features s' = [f] \<and>
        gtype (geometry f) = ''MultiPolygon'' \<and>
        coordinates (geometry f) = Polys [[[[0, 0], [0, 1], [1, 1], [0, 0]], [[0, 0], [0, 1]]]] \<and>
        properties f = [(Some ''type'', Some ''multipolygon''), (Some ''osm_id'', Some ''100'')])"
  using multipolygon_relation
    [of "el ''relation'' [(''id'', ''100'')]" sample_area_state
        "[\<lparr>mtype = Some ''way'', mref = Some ''11'', mrole = Some ''outer''\<rparr>]"
        "[\<lparr>mtype = Some ''way'', mref = Some ''10'', mrole = Some ''inner''\<rparr>]" decimal7]
  by (simp add: sample_eval)

lemma member_feature_node:
  "mtype m = Some ''node'' \<Longrightarrow> ns (mref m) = Some c \<Longrightarrow>
   member_feature ns ws tgs r_id m =
     [mk_feature ''Point'' (Position c)
        (dict_set (Some ''osm_id'') r_id (dict_set (Some ''rel_role'') (mrole m) tgs))]"
  by (simp add: member_feature_def)

lemma member_feature_way:
  "mtype m = Some ''way'' \<Longrightarrow> ws (mref m) = Some w \<Longrightarrow>
   member_feature ns ws tgs r_id m =
     [mk_feature ''LineString'' (Line (coords w))
        (dict_set (Some ''osm_id'') r_id (dict_set (Some ''rel_role'') (mrole m) tgs))]"
  by (simp add: member_feature_def)

lemma member_feature_none:
  "\<not> resolves s m \<Longrightarrow> member_feature (nodes s) (ways s) tgs r_id m = []"
  by (auto simp add: member_feature_def resolves_def)

lemma finalize_relation_route:
  assumes "dict_get (current_tags s) (Some ''type'') = Some ''route'' \<or>
           dict_get (current_tags s) (Some ''type'') = Some ''restriction''"
  shows "finalize_relation e s =
           s\<lparr>features := features s @
                concat (map (member_feature (nodes s) (ways s) (current_tags s) (attrib e ''id''))
                          (current_members s))\<rparr>"
  using assms by (auto simp add: finalize_relation_def member_loop_concat Let_def)

text \<open>
  C3. When a relation whose \<open>type\<close> tag is \<open>route\<close> or \<open>restriction\<close> is finalized,
  the features appended are the concatenation, in member order, of what each member
  emits on its own: a member of type \<open>node\<close> whose ref is in the node registry emits
  one Point at the stored coordinate; a member of type \<open>way\<close> whose ref is in the way
  registry emits one LineString over the stored coordinate list, whether or not that
  list is closed; any other member emits nothing. The properties of each such feature
  are the relation's tag map with \<open>rel_role\<close> set to the member's role and \<open>osm_id\<close>
  set to the relation's id.
\<close>

theorem route_members:
  assumes "tag e = ''relation''"
    and "dict_get (current_tags s) (Some ''type'') = Some ''route'' \<or>
         dict_get (current_tags s) (Some ''type'') = Some ''restriction''"
    and "props = (\<lambda>m. (map_of (current_tags s))
                        (Some ''rel_role'' \<mapsto> mrole m, Some ''osm_id'' \<mapsto> attrib e ''id''))"
  shows "\<exists>s' emit. step pyfloat s (End e) = Inr s' \<and>
           features s' = features s @ concat (map emit (current_members s)) \<and>
           (\<forall>m c. mtype m = Some ''node'' \<and> nodes s (mref m) = Some c \<longrightarrow>
              (\<exists>f. emit m = [f] \<and> ftype f = ''Feature'' \<and> gtype (geometry f) = ''Point'' \<and>
                   coordinates (geometry f) = Position c \<and> map_of (properties f) = props m)) \<and>
           (\<forall>m w. mtype m = Some ''way'' \<and> ways s (mref m) = Some w \<longrightarrow>
              (\<exists>f. emit m = [f] \<and> ftype f = ''Feature'' \<and> gtype (geometry f) = ''LineString'' \<and>
                   coordinates (geometry f) = Line (coords w) \<and>
                   map_of (properties f) = props m)) \<and>
           (\<forall>m. \<not> resolves s m \<longrightarrow> emit m = [])"
proof -
  let ?emit = "member_feature (nodes s) (ways s) (current_tags s) (attrib e ''id'')"
  have run: "step pyfloat s (End e) = Inr (finalize_relation e s)"
    using assms(1) by (rule step_end_relation)
  have feats: "features (finalize_relation e s) =
                 features s @ concat (map ?emit (current_members s))"
    using assms(2) by (simp add: finalize_relation_route)
  have nd: "\<forall>m c. mtype m = Some ''node'' \<and> nodes s (mref m) = Some c \<longrightarrow>
              (\<exists>f. ?emit m = [f] \<and> ftype f = ''Feature'' \<and> gtype (geometry f) = ''Point'' \<and>
                   coordinates (geometry f) = Position c \<and> map_of (properties f) = props m)"
    by (simp add: member_feature_node mk_feature_def map_of_dict_set assms(3))
  have wy: "\<forall>m w. mtype m = Some ''way'' \<and> ways s (mref m) = Some w \<longrightarrow>
              (\<exists>f. ?emit m = [f] \<and> ftype f = ''Feature'' \<and> gtype (geometry f) = ''LineString'' \<and>
                   coordinates (geometry f) = Line (coords w) \<and>
                   map_of (properties f) = props m)"
    by (simp add: member_feature_way mk_feature_def map_of_dict_set assms(3))
  have no: "\<forall>m. \<not> resolves s m \<longrightarrow> ?emit m = []"
    by (simp add: member_feature_none)
  from run feats nd wy no show ?thesis by blast
qed

theorem route_members_witness:
  "dict_get (current_tags sample_state) (Some ''type'') = Some ''route'' \<and>
   (\<exists>s'. step decimal7 sample_state (End (el ''relation'' [(''id'', ''300'')])) = Inr s' \<and>
        map (\<lambda>f. (gtype (geometry f), coordinates (geometry f))) (features s') =
          [(''LineString'', Line [[0, 0], [0, 1], [1, 1], [0, 0]]),
           (''LineString'', Line [[0, 0], [0, 1]]),
           (''Point'', Position [0, 0])])"
  using route_members
    [of "el ''relation'' [(''id'', ''300'')]" sample_state
        "\<lambda>m. (map_of (current_tags sample_state))
               (Some ''rel_role'' \<mapsto> mrole m, Some ''osm_id'' \<mapsto> Some ''300'')" decimal7]
  by (simp add: sample_eval)

lemma member_feature_osm_id:
  "f \<in> set (member_feature ns ws tgs r_id m) \<Longrightarrow>
   map_of (properties f) (Some ''osm_id'') = Some r_id"
  by (auto simp add: member_feature_def Let_def mk_feature_def map_of_dict_set
        split: if_splits)

lemma member_feature_roles:
  "map (\<lambda>f. map_of (properties f) (Some ''rel_role''))
     (concat (map (member_feature (nodes s) (ways s) tgs r_id) ms)) =
   map (\<lambda>m. Some (mrole m)) (filter (resolves s) ms)"
  by (induction ms)
     (auto simp add: member_feature_def Let_def mk_feature_def map_of_dict_set resolves_def)

lemma finalize_relation_osm_id:
  "\<exists>new. features (finalize_relation e s) = features s @ new \<and>
         (\<forall>f \<in> set new. map_of (properties f) (Some ''osm_id'') = Some (attrib e ''id''))"
  by (auto simp add: finalize_relation_def member_loop_concat Let_def mk_feature_def
        map_of_dict_set member_feature_osm_id)

text \<open>
  C9. Every feature appended at the end event of an element carries, under the key
  \<open>osm_id\<close>, the id of that element, whatever the tag buffer holds under that key;
  and the features appended for a route or restriction carry, under the key
  \<open>rel_role\<close>, the roles of the members that emitted them, in member order, whatever
  the tag buffer holds under that key.
\<close>

theorem reserved_keys_override_tags:
  assumes "step pyfloat s (End e) = Inr s'"
  shows "\<exists>new. features s' = features s @ new \<and>
           (\<forall>f \<in> set new. map_of (properties f) (Some ''osm_id'') = Some (attrib e ''id'')) \<and>
           (tag e = ''relation'' \<and>
            (dict_get (current_tags s) (Some ''type'') = Some ''route'' \<or>
             dict_get (current_tags s) (Some ''type'') = Some ''restriction'') \<longrightarrow>
              map (\<lambda>f. map_of (properties f) (Some ''rel_role'')) new =
                map (\<lambda>m. Some (mrole m)) (filter (resolves s) (current_members s)))"
proof -
  consider (nd) "tag e = ''node''" | (wy) "tag e = ''way''" | (rl) "tag e = ''relation''"
    | (other) "tag e \<noteq> ''node''" "tag e \<noteq> ''way''" "tag e \<noteq> ''relation''"
    by blast
  then show ?thesis
  proof cases
    case nd
    with assms show ?thesis
      by (auto simp add: finalize_node_def Let_def mk_feature_def map_of_dict_set
            split: sum.splits if_splits)
  next
    case wy
    with assms show ?thesis
      by (auto simp add: finalize_way_def Let_def mk_feature_def map_of_dict_set)
  next
    case rl
    then have s': "s' = finalize_relation e s"
      using assms by simp
    show ?thesis
    proof (cases "dict_get (current_tags s) (Some ''type'') = Some ''route'' \<or>
                  dict_get (current_tags s) (Some ''type'') = Some ''restriction''")
      case True
      let ?new = "concat (map (member_feature (nodes s) (ways s) (current_tags s)
                    (attrib e ''id'')) (current_members s))"
      have "features s' = features s @ ?new"
        using True s' by (simp add: finalize_relation_route)
      moreover have "\<forall>f \<in> set ?new. map_of (properties f) (Some ''osm_id'') = Some (attrib e ''id'')"
        by (auto simp add: member_feature_osm_id)
      moreover have "map (\<lambda>f. map_of (properties f) (Some ''rel_role'')) ?new =
                map (\<lambda>m. Some (mrole m)) (filter (resolves s) (current_members s))"
        by (rule member_feature_roles)
      ultimately show ?thesis by blast
    next
      case False
      with finalize_relation_osm_id [of e s] s' show ?thesis by auto
    qed
  next
    case other
    with assms show ?thesis by (auto split: if_splits)
  qed
qed

theorem reserved_keys_override_tags_witness:
  "map_of (current_tags sample_state) (Some ''osm_id'') = Some (Some ''from a tag'') \<and>
   map_of (current_tags sample_state) (Some ''rel_role'') = Some (Some ''from a tag'') \<and>
   map (\<lambda>f. map_of (properties f) (Some ''osm_id''))
     (features (finalize_relation (el ''relation'' [(''id'', ''300'')]) sample_state)) =
     [Some (Some ''300''), Some (Some ''300''), Some (Some ''300'')] \<and>
   map (\<lambda>f. map_of (properties f) (Some ''rel_role''))
     (features (finalize_relation (el ''relation'' [(''id'', ''300'')]) sample_state)) =
     [Some (Some ''outer''), Some (Some ''inner''), Some (Some ''stop'')]"
  using reserved_keys_override_tags
    [of decimal7 sample_state "el ''relation'' [(''id'', ''300'')]"
        "finalize_relation (el ''relation'' [(''id'', ''300'')]) sample_state"]
  by (simp add: sample_eval)

subsection \<open>Failures\<close>

lemma length_resolve_refs: "length (resolve_refs ns rs) \<le> length rs"
  by (induction rs) (auto split: option.splits)

lemma length_member_features:
  "length (concat (map (member_feature ns ws tgs r_id) ms)) \<le> length ms"
  by (induction ms) (auto simp add: member_feature_def Let_def)

lemma finalize_relation_appends:
  "\<exists>new. features (finalize_relation e s) = features s @ new \<and>
         length new \<le> length (current_members s)"
proof -
  let ?t = "dict_get (current_tags s) (Some ''type'')"
  consider (area) "?t = Some ''multipolygon'' \<or> ?t = Some ''boundary''"
    | (ordered) "?t = Some ''route'' \<or> ?t = Some ''restriction''"
    | (other) "?t \<noteq> Some ''multipolygon''" "?t \<noteq> Some ''boundary''"
        "?t \<noteq> Some ''route''" "?t \<noteq> Some ''restriction''"
    by blast
  then show ?thesis
  proof cases
    case area
    show ?thesis
    proof (cases "rings_of (ways s) ''outer'' (current_members s) = []")
      case True
      with area show ?thesis by (auto simp add: finalize_relation_def Let_def)
    next
      case False
      then have "current_members s \<noteq> []" by auto
      then have "length [x] \<le> length (current_members s)" for x :: "'a feature"
        by (cases "current_members s") auto
      with area False show ?thesis
        by (auto simp add: finalize_relation_def Let_def)
    qed
  next
    case ordered
    then show ?thesis
      by (simp add: finalize_relation_route length_member_features)
  next
    case other
    then show ?thesis by (simp add: finalize_relation_def Let_def)
  qed
qed

lemma resolve_refs_drop:
  "ns x = None \<Longrightarrow> resolve_refs ns (rs1 @ x # rs2) = resolve_refs ns (rs1 @ rs2)"
  by (induction rs1) (auto split: option.splits)

lemma rings_of_drop:
  "ws (mref m) = None \<Longrightarrow> rings_of ws role (ms1 @ m # ms2) = rings_of ws role (ms1 @ ms2)"
  by (simp add: rings_of_filter)

lemma resolves_members_update [simp]:
  "resolves (s\<lparr>current_members := ms\<rparr>) = resolves s"
  by (simp add: resolves_def fun_eq_iff)

lemma member_features_count:
  "length (concat (map (member_feature (nodes s) (ways s) tgs r_id) ms)) =
   length (filter (resolves s) ms)"
  by (induction ms) (auto simp add: member_feature_def Let_def resolves_def)

lemma finalize_way_drop:
  assumes "current_refs s = rs1 @ x # rs2" and "nodes s x = None"
  shows "ways (finalize_way w (s\<lparr>current_refs := rs1 @ rs2\<rparr>)) = ways (finalize_way w s) \<and>
         features (finalize_way w (s\<lparr>current_refs := rs1 @ rs2\<rparr>)) = features (finalize_way w s)"
  using assms by (simp add: finalize_way_def Let_def resolve_refs_drop)

lemma finalize_relation_ordered_drop:
  assumes "is_ordered s" and "current_members s = ms1 @ m # ms2" and "\<not> resolves s m"
  shows "features (finalize_relation r (s\<lparr>current_members := ms1 @ ms2\<rparr>)) =
         features (finalize_relation r s)"
proof -
  have "is_ordered (s\<lparr>current_members := ms1 @ ms2\<rparr>)"
    using assms(1) by (simp add: is_ordered_def)
  then show ?thesis
    using assms
    by (simp add: finalize_relation_route is_ordered_def member_feature_none)
qed

lemma finalize_relation_area_drop:
  assumes "is_area s" and "current_members s = ms1 @ m # ms2" and "ways s (mref m) = None"
  shows "features (finalize_relation r (s\<lparr>current_members := ms1 @ ms2\<rparr>)) =
         features (finalize_relation r s)"
  using assms
  by (simp add: finalize_relation_def is_area_def Let_def rings_of_drop)

lemma finalize_relation_ordered_count:
  assumes "is_ordered s"
  shows "\<exists>new. features (finalize_relation r s) = features s @ new \<and>
           length new = length (filter (resolves s) (current_members s))"
  using assms
  by (simp add: finalize_relation_route is_ordered_def member_features_count)

lemma finalize_relation_area_count:
  assumes "is_area s"
  shows "\<exists>new. features (finalize_relation r s) = features s @ new \<and>
           length new =
             (if filter (\<lambda>m. mrole m = Some ''outer'' \<and> ways s (mref m) \<noteq> None)
                   (current_members s) = [] then 0 else 1)"
  using assms
  by (simp add: finalize_relation_def is_area_def Let_def rings_of_filter)

text \<open>
  C6. A pass over a stream that is well-formed and whose nodes all have parsable
  coordinates ends without an error, whatever the refs of its ways and members are.
  The end of a way never fails and stores the coordinates of exactly the refs that
  resolve, in their original order; a ref that is not in the node registry is dropped:
  the way and the features are the same as if the ref had not been there. The end of
  a relation never fails; a route or restriction appends one feature for each member
  that resolves and none for the others, a multipolygon or boundary appends one
  feature if some outer member resolves and none otherwise, and a member whose ref
  does not resolve is dropped: the features are the same as if the member had not
  been there.
\<close>

theorem unresolved_refs_are_dropped:
  assumes "list_all (item_ok pyfloat) items"
    and "tag w = ''way''"
    and "tag r = ''relation''"
  shows "(\<exists>s'. run pyfloat s0 items = Inr s') \<and>
         (\<exists>s' entry. step pyfloat s (End w) = Inr s' \<and>
              ways s' (attrib w ''id'') = Some entry \<and>
              map Some (coords entry) =
                filter (\<lambda>x. x \<noteq> None) (map (nodes s) (current_refs s)) \<and>
              length (coords entry) \<le> length (current_refs s) \<and>
              (\<forall>rs1 x rs2. current_refs s = rs1 @ x # rs2 \<and> nodes s x = None \<longrightarrow>
                 (\<exists>s''. step pyfloat (s\<lparr>current_refs := rs1 @ rs2\<rparr>) (End w) = Inr s'' \<and>
                       ways s'' = ways s' \<and> features s'' = features s'))) \<and>
         (\<exists>s' new. step pyfloat s (End r) = Inr s' \<and>
              features s' = features s @ new \<and>
              length new \<le> length (current_members s) \<and>
              (is_ordered s \<longrightarrow>
                 length new = length (filter (resolves s) (current_members s))) \<and>
              (is_area s \<longrightarrow>
                 length new =
                   (if filter (\<lambda>m. mrole m = Some ''outer'' \<and> ways s (mref m) \<noteq> None)
                         (current_members s) = [] then 0 else 1)) \<and>
              (\<forall>ms1 m ms2. current_members s = ms1 @ m # ms2 \<and>
                   (is_ordered s \<and> \<not> resolves s m \<or> is_area s \<and> ways s (mref m) = None) \<longrightarrow>
                 (\<exists>s''. step pyfloat (s\<lparr>current_members := ms1 @ ms2\<rparr>) (End r) = Inr s'' \<and>
                       features s'' = features s')))"
proof -
  have a: "\<exists>s'. run pyfloat s0 items = Inr s'"
    using assms(1) by (rule run_ok)
  have way_step: "step pyfloat t (End w) = Inr (finalize_way w t)" for t :: "'a state"
    using assms(2) by (rule step_end_way)
  have rel_step: "step pyfloat t (End r) = Inr (finalize_relation r t)" for t :: "'a state"
    using assms(3) by (rule step_end_relation)
  let ?sw = "finalize_way w s"
  let ?entry = "\<lparr>coords = resolve_refs (nodes s) (current_refs s), tags = current_tags s\<rparr>"
  have b1: "ways ?sw (attrib w ''id'') = Some ?entry"
    by (simp add: finalize_way_def Let_def)
  have b2: "map Some (coords ?entry) =
              filter (\<lambda>x. x \<noteq> None) (map (nodes s) (current_refs s))"
    by (simp add: resolve_refs_filter)
  have b3: "length (coords ?entry) \<le> length (current_refs s)"
    by (simp add: length_resolve_refs)
  have b4: "\<forall>rs1 x rs2. current_refs s = rs1 @ x # rs2 \<and> nodes s x = None \<longrightarrow>
              (\<exists>s''. step pyfloat (s\<lparr>current_refs := rs1 @ rs2\<rparr>) (End w) = Inr s'' \<and>
                    ways s'' = ways ?sw \<and> features s'' = features ?sw)"
    using finalize_way_drop [of s _ _ _ w] by (simp add: way_step del: step.simps)
  have b: "\<exists>s' entry. step pyfloat s (End w) = Inr s' \<and>
              ways s' (attrib w ''id'') = Some entry \<and>
              map Some (coords entry) =
                filter (\<lambda>x. x \<noteq> None) (map (nodes s) (current_refs s)) \<and>
              length (coords entry) \<le> length (current_refs s) \<and>
              (\<forall>rs1 x rs2. current_refs s = rs1 @ x # rs2 \<and> nodes s x = None \<longrightarrow>
                 (\<exists>s''. step pyfloat (s\<lparr>current_refs := rs1 @ rs2\<rparr>) (End w) = Inr s'' \<and>
                       ways s'' = ways s' \<and> features s'' = features s'))"
    using way_step [of s] b1 b2 b3 b4 by blast
  let ?sr = "finalize_relation r s"
  obtain new where n1: "features ?sr = features s @ new"
    and n2: "length new \<le> length (current_members s)"
    using finalize_relation_appends [of r s] by blast
  have n3: "is_ordered s \<longrightarrow> length new = length (filter (resolves s) (current_members s))"
    using finalize_relation_ordered_count [of s r] n1 by auto
  have n4: "is_area s \<longrightarrow>
              length new =
                (if filter (\<lambda>m. mrole m = Some ''outer'' \<and> ways s (mref m) \<noteq> None)
                      (current_members s) = [] then 0 else 1)"
    using finalize_relation_area_count [of s r] n1 by auto
  have n5: "\<forall>ms1 m ms2. current_members s = ms1 @ m # ms2 \<and>
                (is_ordered s \<and> \<not> resolves s m \<or> is_area s \<and> ways s (mref m) = None) \<longrightarrow>
              (\<exists>s''. step pyfloat (s\<lparr>current_members := ms1 @ ms2\<rparr>) (End r) = Inr s'' \<and>
                    features s'' = features ?sr)"
    using finalize_relation_ordered_drop [of s _ _ _ r]
      finalize_relation_area_drop [of s _ _ _ r]
    by (auto simp add: rel_step simp del: step.simps)
  have c: "\<exists>s' new. step pyfloat s (End r) = Inr s' \<and>
              features s' = features s @ new \<and>
              length new \<le> length (current_members s) \<and>
              (is_ordered s \<longrightarrow>
                 length new = length (filter (resolves s) (current_members s))) \<and>
              (is_area s \<longrightarrow>
                 length new =
                   (if filter (\<lambda>m. mrole m = Some ''outer'' \<and> ways s (mref m) \<noteq> None)
                         (current_members s) = [] then 0 else 1)) \<and>
              (\<forall>ms1 m ms2. current_members s = ms1 @ m # ms2 \<and>
                   (is_ordered s \<and> \<not> resolves s m \<or> is_area s \<and> ways s (mref m) = None) \<longrightarrow>
                 (\<exists>s''. step pyfloat (s\<lparr>current_members := ms1 @ ms2\<rparr>) (End r) = Inr s'' \<and>
                       features s'' = features s'))"
    using rel_step [of s] n1 n2 n3 n4 n5 by blast
  from a b c show ?thesis by blast
qed

theorem unresolved_refs_are_dropped_witness:
  "list_all (item_ok decimal7) sample_gaps \<and>
   (\<exists>s'. run decimal7 init sample_gaps = Inr s') \<and>
   (\<exists>s' entry. step decimal7 sample_state (End (el ''way'' [(''id'', ''12'')])) = Inr s' \<and>
        ways s' (Some ''12'') = Some entry \<and>
        coords entry = [[0, 0], [0, 1], [1, 1], [0, 0]]) \<and>
   is_ordered sample_state \<and>
   \<not> resolves sample_state \<lparr>mtype = Some ''way'', mref = Some ''99'', mrole = Some ''outer''\<rparr> \<and>
   (\<exists>s' s''. step decimal7 sample_state (End (el ''relation'' [(''id'', ''300'')])) = Inr s' \<and>
        length (features s') = 3 \<and>
        step decimal7
          (sample_state\<lparr>current_members :=
             [\<lparr>mtype = Some ''way'', mref = Some ''11'', mrole = Some ''outer''\<rparr>,
              \<lparr>mtype = Some ''way'', mref = Some ''10'', mrole = Some ''inner''\<rparr>,
              \<lparr>mtype = Some ''node'', mref = Some ''1'', mrole = Some ''stop''\<rparr>,
              \<lparr>mtype = Some ''node'', mref = Some ''42'', mrole = Some ''stop''\<rparr>]\<rparr>)
          (End (el ''relation'' [(''id'', ''300'')])) = Inr s'' \<and>
        features s'' = features s')"
proof -
  let ?w = "el ''way'' [(''id'', ''12'')]"
  let ?r = "el ''relation'' [(''id'', ''300'')]"
  let ?m = "\<lparr>mtype = Some ''way'', mref = Some ''99'', mrole = Some ''outer''\<rparr>"
  let ?ms1 = "[\<lparr>mtype = Some ''way'', mref = Some ''11'', mrole = Some ''outer''\<rparr>]"
  let ?ms2 = "[\<lparr>mtype = Some ''way'', mref = Some ''10'', mrole = Some ''inner''\<rparr>,
               \<lparr>mtype = Some ''node'', mref = Some ''1'', mrole = Some ''stop''\<rparr>,
               \<lparr>mtype = Some ''node'', mref = Some ''42'', mrole = Some ''stop''\<rparr>]"
  have h1: "list_all (item_ok decimal7) sample_gaps"
    by (simp add: sample_gaps_def sample_eval)
  have h2: "tag ?w = ''way''"
    by (simp add: el_def)
  have h3: "tag ?r = ''relation''"
    by (simp add: el_def)
  have ord: "is_ordered sample_state"
    by (simp add: is_ordered_def sample_state_def dict_get_def)
  have unres: "\<not> resolves sample_state ?m"
    by (simp add: resolves_def sample_state_def)
  have split: "current_members sample_state = ?ms1 @ ?m # ?ms2"
    by (simp add: sample_state_def sample_members_def)
  have count: "length (filter (resolves sample_state) (current_members sample_state)) = 3"
    by (simp add: resolves_def sample_state_def sample_members_def)
  have empty: "features sample_state = []"
    by (simp add: sample_state_def)
  have way: "\<exists>s' entry. step decimal7 sample_state (End ?w) = Inr s' \<and>
               ways s' (Some ''12'') = Some entry \<and>
               coords entry = [[0, 0], [0, 1], [1, 1], [0, 0]]"
    by (simp add: sample_eval)
  note all = unresolved_refs_are_dropped
    [OF h1 h2 h3, where ?s0.0 = init and s = sample_state]
  from all have run: "\<exists>s'. run decimal7 init sample_gaps = Inr s'"
    by blast
  from all obtain s' new where
    st: "step decimal7 sample_state (End ?r) = Inr s'" and
    ft: "features s' = features sample_state @ new" and
    cnt: "is_ordered sample_state \<longrightarrow>
            length new = length (filter (resolves sample_state) (current_members sample_state))" and
    drop: "\<forall>ms1 m ms2. current_members sample_state = ms1 @ m # ms2 \<and>
             (is_ordered sample_state \<and> \<not> resolves sample_state m \<or>
              is_area sample_state \<and> ways sample_state (mref m) = None) \<longrightarrow>
             (\<exists>s''. step decimal7 (sample_state\<lparr>current_members := ms1 @ ms2\<rparr>) (End ?r) = Inr s'' \<and>
                   features s'' = features s')"
    by blast
  from ft cnt ord count empty have len: "length (features s') = 3"
    by simp
  from drop split ord unres obtain s'' where
    "step decimal7 (sample_state\<lparr>current_members := ?ms1 @ ?ms2\<rparr>) (End ?r) = Inr s''"
    "features s'' = features s'"
    by blast
  then have rel: "\<exists>s' s''. step decimal7 sample_state (End ?r) = Inr s' \<and>
        length (features s') = 3 \<and>
        step decimal7 (sample_state\<lparr>current_members := ?ms1 @ ?ms2\<rparr>) (End ?r) = Inr s'' \<and>
        features s'' = features s'"
    using st len by blast
  from h1 run way ord unres rel show ?thesis
    by simp
qed

lemma compile_fails:
  "\<not> list_all (item_ok pyfloat) items \<Longrightarrow> \<exists>err. compile pyfloat items = Inl err"
  using run_fails [of pyfloat items init] by (auto simp add: compile_def)

text \<open>
  C7. If the stream of the input document is malformed at some point or ends a node
  whose longitude or latitude does not parse, the call raises an error, prints
  nothing, and leaves the file system as it found it: no output file is written.
\<close>

theorem parse_failure_writes_nothing:
  assumes "fs input_path = Some doc"
    and "\<not> list_all (item_ok pyfloat) (iterparse doc)"
    and "out = osm_to_geojson iterparse pyfloat dump elapsed t0 t1 fs output_path input_path"
  shows "raised out \<noteq> None \<and> files out = fs \<and> printed out = []"
proof -
  obtain err where "compile pyfloat (iterparse doc) = Inl err"
    using compile_fails [OF assms(2)] by blast
  with assms(1,3) show ?thesis by (simp add: osm_to_geojson_def)
qed

theorem parse_failure_writes_nothing_witness:
  "\<not> list_all (item_ok decimal7) sample_corrupt \<and>
   raised (osm_to_geojson (\<lambda>doc. sample_corrupt) decimal7 (\<lambda>c. ''{}'') (\<lambda>a b. ''done'')
             (0::nat) 1 [''in.osm'' \<mapsto> ''<osm>''] ''out.geojson'' ''in.osm'') =
     Some ValueError \<and>
   files (osm_to_geojson (\<lambda>doc. sample_corrupt) decimal7 (\<lambda>c. ''{}'') (\<lambda>a b. ''done'')
            (0::nat) 1 [''in.osm'' \<mapsto> ''<osm>''] ''out.geojson'' ''in.osm'') ''out.geojson'' =
     None"
  using parse_failure_writes_nothing
    [where fs = "[''in.osm'' \<mapsto> ''<osm>'']" and input_path = "''in.osm''"
       and doc = "''<osm>''" and pyfloat = decimal7 and iterparse = "\<lambda>doc. sample_corrupt"
       and dump = "\<lambda>c. ''{}''" and elapsed = "\<lambda>a b. ''done''" and ?t0.0 = "0::nat"
       and ?t1.0 = "1::nat" and output_path = "''out.geojson''", OF _ _ refl]
  by (simp add: sample_eval sample_corrupt_def osm_to_geojson_def compile_def)

subsection \<open>The test document\<close>

lemmas fixture_eval = compile_def init_def finalize_node_def finalize_way_def
  finalize_relation_def member_feature_def mk_feature_def is_polygon_def dict_get_def
  to_float_def Let_def el_def leaf_def inside_def fixture_def fixture_nodes_def
  fixture_ways_def fixture_relations_def fixture_expected_def

lemma fixture_compiles:
  assumes "pyfloat ''-117.2110'' = Some a" and "pyfloat ''-117.2120'' = Some b"
    and "pyfloat ''-117.2115'' = Some c" and "pyfloat ''32.8715'' = Some p"
    and "pyfloat ''32.8720'' = Some q" and "pyfloat ''32.8730'' = Some r"
    and "pyfloat ''32.8725'' = Some t" and "q \<noteq> r"
  shows "compile pyfloat fixture = Inr (fixture_expected a b c p q r t)"
  using assms by (simp add: fixture_eval)

lemma decimal7_literals:
  "decimal7 ''-117.2110'' = Some (- 1172110000)"
  "decimal7 ''-117.2120'' = Some (- 1172120000)"
  "decimal7 ''-117.2115'' = Some (- 1172115000)"
  "decimal7 ''32.8715'' = Some 328715000"
  "decimal7 ''32.8720'' = Some 328720000"
  "decimal7 ''32.8730'' = Some 328730000"
  "decimal7 ''32.8725'' = Some 328725000"
  by (simp_all add: unsigned_decimal7_def digit_val_def)

text \<open>
  C5, as the code has it. Whenever \<open>float\<close> parses the seven coordinate literals of
  the test document and tells the latitudes \<open>32.8720\<close> and \<open>32.8730\<close> apart, the
  document compiles to exactly the nine features of \<open>fixture_expected\<close>: the Point of
  node 1; the LineString of way 10 and the Polygon of way 11 (way 12 has no tags and
  emits nothing of its own); the MultiPolygon of relation 100 with two rings (ways 11
  and 12); the MultiPolygon of relation 200; for relation 300 a LineString with
  \<open>rel_role = track\<close> and a Point with \<open>rel_role = stop\<close> and \<open>ref = 201\<close>; for
  relation 400 a LineString with \<open>rel_role = from\<close> and a Point with \<open>rel_role = via\<close>.
\<close>

theorem fixture_features:
  assumes "pyfloat ''-117.2110'' = Some a" and "pyfloat ''-117.2120'' = Some b"
    and "pyfloat ''-117.2115'' = Some c" and "pyfloat ''32.8715'' = Some p"
    and "pyfloat ''32.8720'' = Some q" and "pyfloat ''32.8730'' = Some r"
    and "pyfloat ''32.8725'' = Some t" and "q \<noteq> r"
  shows "compile pyfloat fixture = Inr (fixture_expected a b c p q r t) \<and>
         length (fixture_expected a b c p q r t) = 9"
  using fixture_compiles [OF assms] by (simp add: fixture_expected_def Let_def)

theorem fixture_features_witness:
  "compile decimal7 fixture =
     Inr (fixture_expected (- 1172110000) (- 1172120000) (- 1172115000)
            328715000 328720000 328730000 328725000) \<and>
   length (fixture_expected (- 1172110000 :: int) (- 1172120000) (- 1172115000)
            328715000 328720000 328730000 328725000) = 9"
  by (rule fixture_features [OF decimal7_literals]) simp

text \<open>
  The test document does not compile to ten features: way 12 is untagged, so only two
  features come from ways and the total is nine.
\<close>

theorem fixture_not_ten_features:
  "map_sum id length (compile decimal7 fixture) = Inr 9 \<and>
   map_sum id length (compile decimal7 fixture) \<noteq> Inr 10"
proof -
  have "(328720000 :: int) \<noteq> 328730000"
    by simp
  from fixture_compiles [OF decimal7_literals this] show ?thesis
    by (simp add: fixture_expected_def Let_def)
qed

end
